theory Spec2Isabelle
  imports Main "HOL-Library.Word"
begin

section \<open>Data model\<close>

text \<open>
  Go's fixed-width integers are machine words, so \<open>+\<close> and \<open>-\<close> wrap as they do in
  the miner. A \<open>[32]byte\<close> array (address, hash) is a 256-bit word and a \<open>[64]byte\<close>
  signature a 512-bit word, read big-endian; the zero array \<open>[32]byte{}\<close> is \<open>0\<close>.
  A byte slice that the code tests against \<open>nil\<close> is an option of a byte list.
\<close>

type_synonym byte = "8 word"
type_synonym u32 = "32 word"
type_synonym u64 = "64 word"
type_synonym bytes32 = "256 word"
type_synonym bytes64 = "512 word"

text \<open>
  The account type lives in the protocol package, outside the sources at hand. The record
  has the fields the miner reads and writes and the arguments of \<open>NewAccount\<close>.
\<close>

record Account =
  Address :: bytes32
  Issuer :: bytes32
  Balance :: u64
  TxCnt :: u32
  IsStaking :: bool
  CommitmentKey :: "byte list"
  StakingBlockHeight :: u32
  Contract :: "byte list option"
  ContractVariables :: "byte list list option"

text \<open>\<open>FundsTx\<close> and \<open>IotTx\<close> as declared in the protocol package.\<close>

record FundsTx =
  Header :: byte
  Amount :: u64
  Fee :: u64
  TxCnt :: u32
  From :: bytes32
  To :: bytes32
  Sig :: bytes64
  Aggregated :: bool
  Data :: "byte list option"

record IotTx =
  Header :: byte
  TxCnt :: u32
  From :: bytes32
  To :: bytes32
  Sig :: bytes64
  Data :: "byte list option"
  Fee :: u64

text \<open>
  The other four variants are declared outside the sources at hand; each record carries
  the fields that the miner's code uses.
\<close>

record AccTx =
  Header :: byte
  Fee :: u64
  PubKey :: bytes32
  Sig :: bytes64

record ConfigTx =
  Header :: byte
  Id :: byte
  Payload :: u64
  Fee :: u64
  Sig :: bytes64

record StakeTx =
  Header :: byte
  Fee :: u64
  IsStaking :: bool
  Account :: bytes32
  Sig :: bytes64
  CommitmentKey :: "byte list"

record AggTx =
  Amount :: u64
  Fee :: u64
  From :: "bytes32 list"
  To :: "bytes32 list"
  AggregatedTxSlice :: "bytes32 list"

datatype Transaction =
    TAccTx AccTx
  | TFundsTx FundsTx
  | TConfigTx ConfigTx
  | TStakeTx StakeTx
  | TAggTx AggTx
  | TIotTx IotTx

text \<open>
  A block, restricted to what \<open>addTx\<close> and the aggregator touch: the six sequences of
  transaction hashes and the local state copy. \<open>StateCopy\<close> maps an address to a pointer
  to a private copy of an account; every entry is created from a fresh copy, so the model
  is a map from addresses to accounts.
\<close>

record Block =
  AccTxData :: "bytes32 list"
  FundsTxData :: "bytes32 list"
  ConfigTxData :: "bytes32 list"
  StakeTxData :: "bytes32 list"
  AggTxData :: "bytes32 list"
  IoTTxData :: "bytes32 list"
  StateCopy :: "bytes32 \<rightharpoonup> Account"

text \<open>
  The global storage: \<open>storage.State\<close> (a map from address to account pointer, a
  \<open>nil\<close> entry reading as absent) and \<open>storage.RootKeys\<close>, kept as an association list
  because \<open>verifyAccTx\<close> iterates over it.
\<close>

record storage =
  State :: "bytes32 \<rightharpoonup> Account"
  RootKeys :: "(bytes32 \<times> Account) list"

text \<open>
  What the miner calls but the sources at hand do not define is a field of the
  environment: the hash functions, the signature check, the virtual machine, the
  constants of the miner's configuration and the active parameters.
\<close>

record env =
  SerializeHashContent :: "bytes32 \<Rightarrow> bytes32"
  SerializeHashContentIoT :: "bytes32 \<Rightarrow> bytes32"
  SerializeHashContent_FundsTx ::
    "byte \<times> u64 \<times> u64 \<times> u32 \<times> bytes32 \<times> bytes32 \<times> byte list option \<Rightarrow> bytes32"
  sha3_Sum256 :: "byte list \<Rightarrow> bytes32"
  AccTx_Hash :: "AccTx \<Rightarrow> bytes32"
  ConfigTx_Hash :: "ConfigTx \<Rightarrow> bytes32"
  StakeTx_Hash :: "StakeTx \<Rightarrow> bytes32"
  AggTx_Hash :: "AggTx \<Rightarrow> bytes32"
  ed25519_Verify :: "bytes32 \<Rightarrow> bytes32 \<Rightarrow> bytes64 \<Rightarrow> bool"
  WriteAccount :: "Account \<Rightarrow> storage \<Rightarrow> storage"
  vm_Exec :: "Account \<Rightarrow> FundsTx \<Rightarrow> bool"
  vm_GetErrorMsg :: "Account \<Rightarrow> FundsTx \<Rightarrow> string"
  context_PersistChanges :: "Account \<Rightarrow> FundsTx \<Rightarrow> byte list list option"
  MAX_MONEY :: u64
  FEE_MINIMUM :: u64
  COMM_KEY_LENGTH :: nat
  Fee_minimum :: u64
  Staking_minimum :: u64

section \<open>Transaction model\<close>

text \<open>Big-endian bytes of a number, \<open>k\<close> of them, as \<open>binary.Write\<close> emits them.\<close>

fun be_bytes :: "nat \<Rightarrow> nat \<Rightarrow> byte list" where
  "be_bytes 0 n = []"
| "be_bytes (Suc k) n = be_bytes k (n div 256) @ [of_nat (n mod 256)]"

definition slice_bytes :: "byte list option \<Rightarrow> byte list" where
  "slice_bytes d = (case d of None \<Rightarrow> [] | Some bs \<Rightarrow> bs)"

text \<open>
  \<open>FundsTx.Hash\<close>: the hashed struct has neither the signature nor the aggregated flag.
\<close>

definition FundsTx_Hash :: "env \<Rightarrow> FundsTx \<Rightarrow> bytes32" where
  "FundsTx_Hash e tx =
     SerializeHashContent_FundsTx e
       (FundsTx.Header tx, FundsTx.Amount tx, FundsTx.Fee tx, FundsTx.TxCnt tx,
        FundsTx.From tx, FundsTx.To tx, FundsTx.Data tx)"

text \<open>\<open>IotTx.Hash\<close>: order To, From, TxCnt, Fee, Header, Data.\<close>

definition IotTx_Hash :: "env \<Rightarrow> IotTx \<Rightarrow> bytes32" where
  "IotTx_Hash e tx =
     sha3_Sum256 e
       (be_bytes 32 (unat (IotTx.To tx)) @ be_bytes 32 (unat (IotTx.From tx)) @
        be_bytes 4 (unat (IotTx.TxCnt tx)) @ be_bytes 8 (unat (IotTx.Fee tx)) @
        [IotTx.Header tx] @ slice_bytes (IotTx.Data tx))"

fun TxFee :: "Transaction \<Rightarrow> u64" where
  "TxFee (TAccTx tx) = AccTx.Fee tx"
| "TxFee (TFundsTx tx) = FundsTx.Fee tx"
| "TxFee (TConfigTx tx) = ConfigTx.Fee tx"
| "TxFee (TStakeTx tx) = StakeTx.Fee tx"
| "TxFee (TAggTx tx) = AggTx.Fee tx"
| "TxFee (TIotTx tx) = IotTx.Fee tx"

text \<open>\<open>crypto.GetPubKeyFromAddressED\<close> returns the address bytes as they are.\<close>

definition GetPubKeyFromAddressED :: "bytes32 \<Rightarrow> bytes32" where
  "GetPubKeyFromAddressED address = address"

text \<open>
  Modelled from the spec: \<open>protocol.NewAccount\<close> is not among the sources; the account
  of section 3 with the seven arguments of the call and the remaining counters at zero.
\<close>

definition NewAccount ::
  "bytes32 \<Rightarrow> bytes32 \<Rightarrow> u64 \<Rightarrow> bool \<Rightarrow> byte list \<Rightarrow> byte list option \<Rightarrow>
     byte list list option \<Rightarrow> Account" where
  "NewAccount address issuer balance isStaking commitmentKey contract contractVariables =
     \<lparr>Account.Address = address, Account.Issuer = issuer, Account.Balance = balance,
      Account.TxCnt = 0, Account.IsStaking = isStaking,
      Account.CommitmentKey = commitmentKey, Account.StakingBlockHeight = 0,
      Account.Contract = contract, Account.ContractVariables = contractVariables\<rparr>"

text \<open>
  Modelled from the spec: \<open>storage.IsRootKey\<close> is not among the sources; section 4.2 has
  \<open>is_root(addr)\<close> answer whether the address is in the root-key registry.
\<close>

definition IsRootKey :: "storage \<Rightarrow> bytes32 \<Rightarrow> bool" where
  "IsRootKey st h = (h \<in> set (map fst (RootKeys st)))"

section \<open>Signature verification\<close>

text \<open>
  Every verifier receives a pointer and some of them write through it, so each returns the
  transaction as it leaves it. \<open>verifyStakeTx\<close> also writes the global state. The
  \<open>nil\<close> tests at the head of each verifier are left out: a transaction here is a value.
\<close>

definition verifyIotTx :: "env \<Rightarrow> storage \<Rightarrow> IotTx \<Rightarrow> bool \<times> IotTx" where
  "verifyIotTx e st tx =
     (case (State st (IotTx.From tx), State st (IotTx.To tx)) of
        (Some accFrom, Some accTo) \<Rightarrow>
          (let accFromHash = SerializeHashContentIoT e (Account.Address accFrom);
               accToHash = SerializeHashContentIoT e (Account.Address accTo);
               tx1 = tx\<lparr>IotTx.From := accFromHash, IotTx.To := accToHash\<rparr>;
               txHash = IotTx_Hash e tx1;
               pubKey = Account.Address accFrom
           in if ed25519_Verify e pubKey txHash (IotTx.Sig tx1) \<and> IotTx.From tx1 \<noteq> IotTx.To tx1
              then (True, tx1\<lparr>IotTx.From := SerializeHashContent e (Account.Address accFrom),
                               IotTx.To := SerializeHashContent e (Account.Address accTo)\<rparr>)
              else (False, tx1))
      | _ \<Rightarrow> (False, tx))"

definition verifyAccTx :: "env \<Rightarrow> storage \<Rightarrow> AccTx \<Rightarrow> bool" where
  "verifyAccTx e st tx =
     list_ex (\<lambda>rootAcc. ed25519_Verify e (GetPubKeyFromAddressED (Account.Address rootAcc))
                           (AccTx_Hash e tx) (AccTx.Sig tx))
       (map snd (RootKeys st))"

definition verifyConfigTx :: "env \<Rightarrow> storage \<Rightarrow> ConfigTx \<Rightarrow> bool" where
  "verifyConfigTx e st tx =
     list_ex (\<lambda>rootAcc. ed25519_Verify e (GetPubKeyFromAddressED (Account.Address rootAcc))
                           (ConfigTx_Hash e tx) (ConfigTx.Sig tx))
       (map snd (RootKeys st))"

definition verifyStakeTx :: "env \<Rightarrow> storage \<Rightarrow> StakeTx \<Rightarrow> bool \<times> storage \<times> StakeTx" where
  "verifyStakeTx e st tx =
     (let (acc, st1) =
            (case State st (StakeTx.Account tx) of
               None \<Rightarrow>
                 (let newAcc = NewAccount (StakeTx.Account tx) 0 0 False
                                 (replicate (COMM_KEY_LENGTH e) 0) None None
                  in (newAcc, WriteAccount e newAcc st))
             | Some a \<Rightarrow> (a, st));
          tx1 = tx\<lparr>StakeTx.Account := SerializeHashContent e (Account.Address acc)\<rparr>;
          txHash = StakeTx_Hash e tx1;
          pubKey = GetPubKeyFromAddressED (Account.Address acc)
      in (ed25519_Verify e pubKey txHash (StakeTx.Sig tx1), st1, tx1))"

definition verifyAggTx :: "AggTx \<Rightarrow> bool" where
  "verifyAggTx tx = True"

definition verifyFundsTx :: "env \<Rightarrow> storage \<Rightarrow> FundsTx \<Rightarrow> bool \<times> FundsTx" where
  "verifyFundsTx e st tx =
     (if FundsTx.Amount tx = 0 \<or> FundsTx.Amount tx > MAX_MONEY e then (False, tx)
      else
        (case (State st (FundsTx.From tx), State st (FundsTx.To tx)) of
           (Some accFrom, Some accTo) \<Rightarrow>
             (let accFromHash = SerializeHashContent e (Account.Address accFrom);
                  accToHash = SerializeHashContent e (Account.Address accTo);
                  txHash = FundsTx_Hash e tx;
                  pubKey = GetPubKeyFromAddressED (Account.Address accFrom);
                  tx1 = tx\<lparr>FundsTx.From := accFromHash, FundsTx.To := accToHash\<rparr>
              in (ed25519_Verify e pubKey txHash (FundsTx.Sig tx1) \<and>
                    FundsTx.From tx1 \<noteq> FundsTx.To tx1, tx1))
         | _ \<Rightarrow> (False, tx)))"

fun verify :: "env \<Rightarrow> storage \<Rightarrow> Transaction \<Rightarrow> bool \<times> storage \<times> Transaction" where
  "verify e st (TFundsTx tx) = (let (v, tx1) = verifyFundsTx e st tx in (v, st, TFundsTx tx1))"
| "verify e st (TAccTx tx) = (verifyAccTx e st tx, st, TAccTx tx)"
| "verify e st (TConfigTx tx) = (verifyConfigTx e st tx, st, TConfigTx tx)"
| "verify e st (TStakeTx tx) = (let (v, st1, tx1) = verifyStakeTx e st tx in (v, st1, TStakeTx tx1))"
| "verify e st (TAggTx tx) = (verifyAggTx tx, st, TAggTx tx)"
| "verify e st (TIotTx tx) = (let (v, tx1) = verifyIotTx e st tx in (v, st, TIotTx tx1))"

section \<open>Block assembly\<close>

text \<open>
  A Go function that returns \<open>error\<close> either returns \<open>nil\<close>, returns an error, or
  panics on a \<open>nil\<close> pointer. The block is passed by pointer, so whatever has been written
  into it before an error or a panic stays written: each function returns the block too.
\<close>

datatype error =
    FeeTooLow
  | NotVerified
  | AccountExists
  | SenderNotPresent
  | ReceiverNotPresent
  | NotEnoughFunds
  | Overflow
  | VMError string
  | AlreadySet
  | TypeNotRecognized

datatype result = Ok | Err error | Panic

text \<open>
  The copy-on-read block that \<open>addIoTTx\<close>, \<open>addFundsTx\<close> and \<open>addStakeTx\<close> each
  repeat for every account they use: nothing to do when the address is in the state copy;
  otherwise the account of the global state is copied if its recomputed hash is the
  address (and silently not copied if it is not), and \<open>None\<close> stands for the early
  return with the "not present in the state" error.
\<close>

definition copyToStateCopy :: "env \<Rightarrow> storage \<Rightarrow> Block \<Rightarrow> bytes32 \<Rightarrow> Block option" where
  "copyToStateCopy e st b k =
     (if StateCopy b k \<noteq> None then Some b
      else
        (case State st k of
           Some acc \<Rightarrow>
             (if SerializeHashContent e (Account.Address acc) = k
              then Some (b\<lparr>StateCopy := (StateCopy b)(k \<mapsto> acc)\<rparr>)
              else Some b)
         | None \<Rightarrow> None))"

definition addAccTx :: "env \<Rightarrow> storage \<Rightarrow> Block \<Rightarrow> AccTx \<Rightarrow> result \<times> Block" where
  "addAccTx e st b tx =
     (let accHash = sha3_Sum256 e (be_bytes 32 (unat (AccTx.PubKey tx)))
      in if and (AccTx.Header tx) 2 \<noteq> 2 \<and> State st accHash \<noteq> None
         then (Err AccountExists, b)
         else (Ok, b\<lparr>AccTxData := AccTxData b @ [AccTx_Hash e tx]\<rparr>))"

text \<open>
  \<open>addIoTTx\<close>. The test for insufficient funds only prints a line (its \<open>return\<close> is
  commented out) and the test of the transaction counter has an empty body, so neither
  shows in the result; both read the sender through the state copy, which panics when
  the copy was skipped.
\<close>

definition addIoTTx :: "env \<Rightarrow> storage \<Rightarrow> Block \<Rightarrow> IotTx \<Rightarrow> result \<times> Block" where
  "addIoTTx e st b tx =
     (case copyToStateCopy e st b (IotTx.From tx) of
        None \<Rightarrow> (Err SenderNotPresent, b)
      | Some b1 \<Rightarrow>
        (case copyToStateCopy e st b1 (IotTx.To tx) of
           None \<Rightarrow> (Err ReceiverNotPresent, b1)
         | Some b2 \<Rightarrow>
           (case StateCopy b2 (IotTx.From tx) of
              None \<Rightarrow> (Panic, b2)
            | Some accSender \<Rightarrow>
                (Ok, b2\<lparr>StateCopy := (StateCopy b2)(IotTx.From tx \<mapsto>
                           accSender\<lparr>Account.TxCnt := Account.TxCnt accSender + 1,
                                     Account.Balance := Account.Balance accSender - IotTx.Fee tx\<rparr>),
                        IoTTxData := IoTTxData b2 @ [IotTx_Hash e tx]\<rparr>))))"

text \<open>
  \<open>addFundsTx\<close>. The test of the transaction counter has an empty body here as well.
  The virtual machine works on a copy of the receiver's account, so of the account in the
  state copy it can change the contract variables only.
\<close>

definition addFundsTx :: "env \<Rightarrow> storage \<Rightarrow> Block \<Rightarrow> FundsTx \<Rightarrow> result \<times> Block" where
  "addFundsTx e st b tx =
     (case copyToStateCopy e st b (FundsTx.From tx) of
        None \<Rightarrow> (Err SenderNotPresent, b)
      | Some b1 \<Rightarrow>
        (case copyToStateCopy e st b1 (FundsTx.To tx) of
           None \<Rightarrow> (Err ReceiverNotPresent, b1)
         | Some b2 \<Rightarrow>
           (case StateCopy b2 (FundsTx.From tx) of
              None \<Rightarrow> (Panic, b2)
            | Some accFrom \<Rightarrow>
              if \<not> IsRootKey st (FundsTx.From tx) \<and>
                 FundsTx.Amount tx + FundsTx.Fee tx > Account.Balance accFrom
              then (Err NotEnoughFunds, b2)
              else
                (case StateCopy b2 (FundsTx.To tx) of
                   None \<Rightarrow> (Panic, b2)
                 | Some accTo \<Rightarrow>
                   if Account.Balance accTo + FundsTx.Amount tx > MAX_MONEY e
                   then (Err Overflow, b2)
                   else if FundsTx.Data tx \<noteq> None \<and> Account.Contract accTo \<noteq> None \<and>
                           \<not> vm_Exec e accTo tx
                   then (Err (VMError (vm_GetErrorMsg e accTo tx)), b2)
                   else
                     (let sc0 = (if FundsTx.Data tx \<noteq> None \<and> Account.Contract accTo \<noteq> None
                                 then (StateCopy b2)(FundsTx.To tx \<mapsto>
                                        accTo\<lparr>Account.ContractVariables :=
                                                 context_PersistChanges e accTo tx\<rparr>)
                                 else StateCopy b2)
                      in case sc0 (FundsTx.From tx) of
                           None \<Rightarrow> (Panic, b2\<lparr>StateCopy := sc0\<rparr>)
                         | Some accSender \<Rightarrow>
                           (let sc1 = sc0(FundsTx.From tx \<mapsto>
                                        accSender\<lparr>Account.TxCnt := Account.TxCnt accSender + 1,
                                                  Account.Balance :=
                                                    Account.Balance accSender - FundsTx.Amount tx\<rparr>)
                            in case sc1 (FundsTx.To tx) of
                                 None \<Rightarrow> (Panic, b2\<lparr>StateCopy := sc1\<rparr>)
                               | Some accReceiver \<Rightarrow>
                                 (Ok, b2\<lparr>StateCopy := sc1(FundsTx.To tx \<mapsto>
                                            accReceiver\<lparr>Account.Balance :=
                                              Account.Balance accReceiver + FundsTx.Amount tx\<rparr>),
                                         FundsTxData := FundsTxData b2 @ [FundsTx_Hash e tx]\<rparr>)))))))"

definition addConfigTx :: "env \<Rightarrow> Block \<Rightarrow> ConfigTx \<Rightarrow> result \<times> Block" where
  "addConfigTx e b tx = (Ok, b\<lparr>ConfigTxData := ConfigTxData b @ [ConfigTx_Hash e tx]\<rparr>)"

definition addStakeTx :: "env \<Rightarrow> storage \<Rightarrow> Block \<Rightarrow> StakeTx \<Rightarrow> result \<times> Block" where
  "addStakeTx e st b tx =
     (case copyToStateCopy e st b (StakeTx.Account tx) of
        None \<Rightarrow> (Err SenderNotPresent, b)
      | Some b1 \<Rightarrow>
        (case StateCopy b1 (StakeTx.Account tx) of
           None \<Rightarrow> (Panic, b1)
         | Some acc \<Rightarrow>
           if \<not> IsRootKey st (SerializeHashContent e (StakeTx.Account tx)) \<and>
              StakeTx.Fee tx + Staking_minimum e \<ge> Account.Balance acc
           then (Err NotEnoughFunds, b1)
           else if Account.IsStaking acc = StakeTx.IsStaking tx
           then (Err AlreadySet, b1)
           else
             (Ok, b1\<lparr>StateCopy := (StateCopy b1)(StakeTx.Account tx \<mapsto>
                        acc\<lparr>Account.IsStaking := StakeTx.IsStaking tx,
                            Account.CommitmentKey := StakeTx.CommitmentKey tx\<rparr>),
                     StakeTxData := StakeTxData b1 @ [StakeTx_Hash e tx]\<rparr>)))"

text \<open>
  \<open>addTx\<close>: the fee floor, the signature check, then the inclusion rule of the variant.
  The verifier may have rewritten the transaction and the global state; the inclusion
  rule sees both as the verifier left them. An \<open>AggTx\<close> falls to the default case.
\<close>

definition addTx ::
  "env \<Rightarrow> storage \<Rightarrow> Block \<Rightarrow> Transaction \<Rightarrow> result \<times> storage \<times> Block \<times> Transaction" where
  "addTx e st b tx =
     (if TxFee tx < Fee_minimum e then (Err FeeTooLow, st, b, tx)
      else
        (let (verified, st1, tx1) = verify e st tx
         in if \<not> verified then (Err NotVerified, st1, b, tx1)
            else
              (case tx1 of
                 TAccTx t \<Rightarrow> (let (r, b1) = addAccTx e st1 b t in (r, st1, b1, tx1))
               | TFundsTx t \<Rightarrow> (let (r, b1) = addFundsTx e st1 b t in (r, st1, b1, tx1))
               | TConfigTx t \<Rightarrow> (let (r, b1) = addConfigTx e b t in (r, st1, b1, tx1))
               | TStakeTx t \<Rightarrow> (let (r, b1) = addStakeTx e st1 b t in (r, st1, b1, tx1))
               | TIotTx t \<Rightarrow> (let (r, b1) = addIoTTx e st1 b t in (r, st1, b1, tx1))
               | TAggTx t \<Rightarrow> (Err TypeNotRecognized, st1, b, tx1))))"

section \<open>Aggregation\<close>








section \<open>Fetching aggregate transactions\<close>

text \<open>
  \<open>fetchAggTxData\<close> talks to storage, to the peer network and to its caller's error
  channel. The peer is the list of what happens at each request, in order: the request
  itself fails, nothing arrives before the timeout, or a transaction arrives. A peer that
  has nothing more to say lets the request time out. The nested fetch of the member
  transactions is a parameter: what it reports for a list of member hashes.
\<close>

datatype fetchError =
    AlreadyInPreviousBlock
  | CouldNotBeRead
  | FetchTimedOut
  | HashMismatch
  | MemberFetchFailed

datatype peerEvent = RequestFails | TimesOut | Arrives AggTx

record fetchVars =
  errChan :: "fetchError option list"
  aggTxSlice :: "AggTx option list"
  openTx :: "AggTx list"
  bootstrapTx :: "AggTx list"
  peer :: "peerEvent list"

datatype fetchExit = Finished | Returned | Panicked

text \<open>
  The request block between the label \<open>here\<close> and the \<open>goto\<close>. \<open>cnt\<close> is the inner
  counter on entry, \<open>hashes\<close> the member hashes gathered so far (they are appended to at
  every round). \<open>None\<close> stands for a \<open>return\<close>. The send after the \<open>goto\<close> can never
  run and has no counterpart.
\<close>

fun requestAggTx ::
  "env \<Rightarrow> (bytes32 list \<Rightarrow> fetchError option) \<Rightarrow> bool \<Rightarrow> bytes32 \<Rightarrow> int \<Rightarrow> bytes32 list \<Rightarrow>
     peerEvent list \<Rightarrow> fetchVars \<Rightarrow> AggTx option \<times> fetchVars" where
  "requestAggTx e nested initialSetup txHash cnt hashes [] s =
     (None, s\<lparr>errChan := errChan s @ [Some FetchTimedOut], peer := []\<rparr>)"
| "requestAggTx e nested initialSetup txHash cnt hashes (RequestFails # evs) s =
     (None, s\<lparr>errChan := errChan s @ [Some CouldNotBeRead], peer := evs\<rparr>)"
| "requestAggTx e nested initialSetup txHash cnt hashes (TimesOut # evs) s =
     (None, s\<lparr>errChan := errChan s @ [Some FetchTimedOut], peer := evs\<rparr>)"
| "requestAggTx e nested initialSetup txHash cnt hashes (Arrives aggTx # evs) s =
     (let cnt1 = cnt + 1;
          hashes1 = hashes @ AggTx.AggregatedTxSlice aggTx;
          s1 = s\<lparr>openTx := openTx s @ [aggTx],
                 bootstrapTx := (if initialSetup then bootstrapTx s @ [aggTx] else bootstrapTx s),
                 errChan := (case nested hashes1 of
                               None \<Rightarrow> errChan s
                             | Some err \<Rightarrow> errChan s @ [Some err]),
                 peer := evs\<rparr>
      in if AggTx_Hash e aggTx \<noteq> txHash \<and> cnt1 < 2
         then requestAggTx e nested initialSetup txHash cnt1 hashes1 evs s1
         else (Some aggTx, s1))"

text \<open>
  The body of the loop over \<open>block.AggTxData\<close> for the hash at index \<open>cnt\<close>. The two
  stores are maps from hash to transaction; a stored transaction of another variant makes
  the type assertion panic, and so does a slice shorter than the index.
\<close>

definition storeAggTx :: "nat \<Rightarrow> AggTx \<Rightarrow> fetchVars \<Rightarrow> fetchExit option \<times> fetchVars" where
  "storeAggTx cnt aggTx s =
     (if cnt < length (aggTxSlice s)
      then (None, s\<lparr>aggTxSlice := (aggTxSlice s)[cnt := Some aggTx]\<rparr>)
      else (Some Panicked, s))"

definition fetchOneAggTx ::
  "env \<Rightarrow> (bytes32 \<rightharpoonup> Transaction) \<Rightarrow> (bytes32 \<rightharpoonup> Transaction) \<Rightarrow>
     (bytes32 list \<Rightarrow> fetchError option) \<Rightarrow> bool \<Rightarrow> nat \<Rightarrow> bytes32 \<Rightarrow> fetchVars \<Rightarrow>
     fetchExit option \<times> fetchVars" where
  "fetchOneAggTx e ReadClosedTx ReadOpenTx nested initialSetup cnt txHash s =
     (case ReadClosedTx txHash of
        Some closedTx \<Rightarrow>
          (if initialSetup then
             (case closedTx of
                TAggTx a \<Rightarrow>
                  storeAggTx cnt a
                    (s\<lparr>errChan := (case nested (AggTx.AggregatedTxSlice a) of
                                      None \<Rightarrow> errChan s
                                    | Some err \<Rightarrow> errChan s @ [Some err])\<rparr>)
              | _ \<Rightarrow> (Some Panicked, s))
           else (Some Returned, s\<lparr>errChan := errChan s @ [Some AlreadyInPreviousBlock]\<rparr>))
      | None \<Rightarrow>
          (case ReadOpenTx txHash of
             Some (TAggTx a) \<Rightarrow> storeAggTx cnt a s
           | Some _ \<Rightarrow> (Some Panicked, s)
           | None \<Rightarrow>
               (case requestAggTx e nested initialSetup txHash 0 [] (peer s) s of
                  (None, s1) \<Rightarrow> (Some Returned, s1)
                | (Some a, s1) \<Rightarrow> storeAggTx cnt a s1)))"

fun fetchAggTxLoop ::
  "env \<Rightarrow> (bytes32 \<rightharpoonup> Transaction) \<Rightarrow> (bytes32 \<rightharpoonup> Transaction) \<Rightarrow>
     (bytes32 list \<Rightarrow> fetchError option) \<Rightarrow> bool \<Rightarrow> nat \<Rightarrow> bytes32 list \<Rightarrow> fetchVars \<Rightarrow>
     fetchExit \<times> fetchVars" where
  "fetchAggTxLoop e ReadClosedTx ReadOpenTx nested initialSetup cnt [] s =
     (Finished, s\<lparr>errChan := errChan s @ [None]\<rparr>)"
| "fetchAggTxLoop e ReadClosedTx ReadOpenTx nested initialSetup cnt (txHash # rest) s =
     (case fetchOneAggTx e ReadClosedTx ReadOpenTx nested initialSetup cnt txHash s of
        (Some ex, s1) \<Rightarrow> (ex, s1)
      | (None, s1) \<Rightarrow> fetchAggTxLoop e ReadClosedTx ReadOpenTx nested initialSetup (Suc cnt) rest s1)"

definition fetchAggTxData ::
  "env \<Rightarrow> (bytes32 \<rightharpoonup> Transaction) \<Rightarrow> (bytes32 \<rightharpoonup> Transaction) \<Rightarrow>
     (bytes32 list \<Rightarrow> fetchError option) \<Rightarrow> Block \<Rightarrow> bool \<Rightarrow> fetchVars \<Rightarrow> fetchExit \<times> fetchVars" where
  "fetchAggTxData e ReadClosedTx ReadOpenTx nested block initialSetup s =
     fetchAggTxLoop e ReadClosedTx ReadOpenTx nested initialSetup 0 (AggTxData block) s"

section \<open>Encoding and decoding\<close>

text \<open>
  \<open>Encode\<close> copies fields into a fresh struct and hands it to the gob encoder;
  \<open>Decode\<close> lets the gob decoder fill a zero struct and ignores its error. The gob
  library is a parameter: an encoder from the struct to bytes and a decoder that updates
  the struct it is given.
\<close>

record gob =
  gob_Encode_FundsTx :: "FundsTx \<Rightarrow> byte list"
  gob_Decode_FundsTx :: "byte list \<Rightarrow> FundsTx \<Rightarrow> FundsTx"
  gob_Encode_IotTx :: "IotTx \<Rightarrow> byte list"
  gob_Decode_IotTx :: "byte list \<Rightarrow> IotTx \<Rightarrow> IotTx"

definition zero_FundsTx :: FundsTx where
  "zero_FundsTx =
     \<lparr>FundsTx.Header = 0, FundsTx.Amount = 0, FundsTx.Fee = 0, FundsTx.TxCnt = 0,
      FundsTx.From = 0, FundsTx.To = 0, FundsTx.Sig = 0, FundsTx.Aggregated = False,
      FundsTx.Data = None\<rparr>"


text \<open>
  \<open>FundsTx.Encode\<close> names eight of the nine fields; \<open>Aggregated\<close> is not among them
  and keeps the zero value of the fresh struct.
\<close>

definition FundsTx_encodeData :: "FundsTx \<Rightarrow> FundsTx" where
  "FundsTx_encodeData tx =
     \<lparr>FundsTx.Header = FundsTx.Header tx, FundsTx.Amount = FundsTx.Amount tx,
      FundsTx.Fee = FundsTx.Fee tx, FundsTx.TxCnt = FundsTx.TxCnt tx,
      FundsTx.From = FundsTx.From tx, FundsTx.To = FundsTx.To tx, FundsTx.Sig = FundsTx.Sig tx,
      FundsTx.Aggregated = False, FundsTx.Data = FundsTx.Data tx\<rparr>"

definition FundsTx_Encode :: "gob \<Rightarrow> FundsTx \<Rightarrow> byte list" where
  "FundsTx_Encode g tx = gob_Encode_FundsTx g (FundsTx_encodeData tx)"

definition FundsTx_Decode :: "gob \<Rightarrow> byte list \<Rightarrow> FundsTx" where
  "FundsTx_Decode g encodedTx = gob_Decode_FundsTx g encodedTx zero_FundsTx"











section \<open>The account an inclusion rule works on\<close>

text \<open>
  For an address, the entry of the state copy if there is one, and otherwise the account
  of the global state that the copy-on-read step would copy.
\<close>

definition touched :: "env \<Rightarrow> storage \<Rightarrow> Block \<Rightarrow> bytes32 \<Rightarrow> Account option" where
  "touched e st b k =
     (case StateCopy b k of
        Some a \<Rightarrow> Some a
      | None \<Rightarrow>
          (case State st k of
             Some a \<Rightarrow> if SerializeHashContent e (Account.Address a) = k then Some a else None
           | None \<Rightarrow> None))"

text \<open>
  What an add that fails may do to a block: the six hash sequences stay, and an entry of
  the state copy either stays or is new and equal to the account of the global state.
\<close>

definition onlyCopies :: "storage \<Rightarrow> Block \<Rightarrow> Block \<Rightarrow> bool" where
  "onlyCopies st b b' \<longleftrightarrow>
     AccTxData b' = AccTxData b \<and> FundsTxData b' = FundsTxData b \<and>
     ConfigTxData b' = ConfigTxData b \<and> StakeTxData b' = StakeTxData b \<and>
     AggTxData b' = AggTxData b \<and> IoTTxData b' = IoTTxData b \<and>
     (\<forall>k. StateCopy b' k = StateCopy b k \<or> (StateCopy b k = None \<and> StateCopy b' k = State st k))"

section \<open>An example environment and example inputs\<close>

text \<open>
  A small environment to run the definitions in: addresses hash to themselves, a signature
  counts as valid when it is not zero, \<open>WriteAccount\<close> stores an account under its
  address, and the limits are \<open>MAX_MONEY = 2^63 - 1\<close>, a fee floor of 1 and a staking
  minimum of 1000.
\<close>

definition env0 :: env where
  "env0 =
     \<lparr>SerializeHashContent = (\<lambda>a. a),
      SerializeHashContentIoT = (\<lambda>a. a),
      SerializeHashContent_FundsTx = (\<lambda>(h, a, f, c, fr, t, d). fr + t + ucast c),
      sha3_Sum256 = (\<lambda>bs. of_nat (length bs)),
      AccTx_Hash = (\<lambda>tx. AccTx.PubKey tx),
      ConfigTx_Hash = (\<lambda>tx. ucast (ConfigTx.Payload tx)),
      StakeTx_Hash = (\<lambda>tx. StakeTx.Account tx),
      AggTx_Hash = (\<lambda>tx. ucast (AggTx.Amount tx)),
      ed25519_Verify = (\<lambda>pubKey msg sig. sig \<noteq> 0),
      WriteAccount = (\<lambda>acc st. st\<lparr>State := (State st)(Account.Address acc \<mapsto> acc)\<rparr>),
      vm_Exec = (\<lambda>acc tx. True),
      vm_GetErrorMsg = (\<lambda>acc tx. []),
      context_PersistChanges = (\<lambda>acc tx. Account.ContractVariables acc),
      MAX_MONEY = 9223372036854775807,
      FEE_MINIMUM = 1,
      COMM_KEY_LENGTH = 4,
      Fee_minimum = 1,
      Staking_minimum = 1000\<rparr>"

text \<open>An account with a balance and a transaction counter, not staking, no contract.\<close>

definition acct :: "bytes32 \<Rightarrow> u64 \<Rightarrow> u32 \<Rightarrow> Account" where
  "acct a bal cnt = (NewAccount a 0 bal False [] None None)\<lparr>Account.TxCnt := cnt\<rparr>"

text \<open>Two accounts, 7 and 8, with the given balances, and no root key.\<close>

definition twoAccounts :: "u64 \<Rightarrow> u64 \<Rightarrow> storage" where
  "twoAccounts bal7 bal8 = \<lparr>State = [7 \<mapsto> acct 7 bal7 0, 8 \<mapsto> acct 8 bal8 0], RootKeys = []\<rparr>"

text \<open>The block as \<open>newBlock\<close> leaves it: no hashes, an empty state copy.\<close>

definition emptyBlock :: Block where
  "emptyBlock =
     \<lparr>AccTxData = [], FundsTxData = [], ConfigTxData = [], StakeTxData = [], AggTxData = [],
      IoTTxData = [], StateCopy = Map.empty\<rparr>"

text \<open>A signed transfer from account 7 to an account, with fee 1 and no data.\<close>

definition transfer :: "bytes32 \<Rightarrow> u64 \<Rightarrow> u32 \<Rightarrow> FundsTx" where
  "transfer to amt cnt =
     \<lparr>FundsTx.Header = 0, FundsTx.Amount = amt, FundsTx.Fee = 1, FundsTx.TxCnt = cnt,
      FundsTx.From = 7, FundsTx.To = to, FundsTx.Sig = 1, FundsTx.Aggregated = False,
      FundsTx.Data = None\<rparr>"

text \<open>A signed IoT message from account 7 to account 8 with fee 1.\<close>

definition message :: IotTx where
  "message =
     \<lparr>IotTx.Header = 0, IotTx.TxCnt = 0, IotTx.From = 7, IotTx.To = 8, IotTx.Sig = 1,
      IotTx.Data = Some [1, 2, 3], IotTx.Fee = 1\<rparr>"

text \<open>A signed request of account 7 to start staking, with fee 1.\<close>

definition stakeRequest :: StakeTx where
  "stakeRequest =
     \<lparr>StakeTx.Header = 0, StakeTx.Fee = 1, StakeTx.IsStaking = True, StakeTx.Account = 7,
      StakeTx.Sig = 1, StakeTx.CommitmentKey = [1, 2, 3, 4]\<rparr>"

text \<open>An aggregate whose hash in the example environment is its amount.\<close>

definition aggOf :: "u64 \<Rightarrow> AggTx" where
  "aggOf n =
     \<lparr>AggTx.Amount = n, AggTx.Fee = 1, AggTx.From = [7], AggTx.To = [8, 9],
      AggTx.AggregatedTxSlice = []\<rparr>"

definition fetchStart :: "peerEvent list \<Rightarrow> fetchVars" where
  "fetchStart evs = \<lparr>errChan = [], aggTxSlice = [None], openTx = [], bootstrapTx = [], peer = evs\<rparr>"

section \<open>Unfolding the definitions\<close>

lemmas example_defs =
  env0_def acct_def twoAccounts_def emptyBlock_def transfer_def message_def stakeRequest_def
  NewAccount_def IsRootKey_def GetPubKeyFromAddressED_def

lemmas add_defs =
  addTx_def addFundsTx_def addIoTTx_def addStakeTx_def addAccTx_def addConfigTx_def
  copyToStateCopy_def verifyFundsTx_def verifyIotTx_def verifyStakeTx_def FundsTx_Hash_def
  IotTx_Hash_def Let_def

section \<open>The transaction counter of a funds transfer\<close>

text \<open>
  C1. The claim: a FundsTx whose TxCnt differs from the sender's txCnt in the state copy
  is refused with an error and not included, and a successful add increments the sender's
  txCnt by one. The code compares the two counters and does nothing with the outcome:
  account 7 has txCnt 0 and 1000 coins, the transfer of 10 coins to account 8 carries
  TxCnt 5, and \<open>addTx\<close> returns \<open>nil\<close>, appends the hash to \<open>FundsTxData\<close> and leaves
  the sender's txCnt at 1.
\<close>

theorem addFundsTx_txcnt_unchecked:
  "FundsTx.TxCnt (transfer 8 10 5) \<noteq> Account.TxCnt (acct 7 1000 0) \<and>
   (case addTx env0 (twoAccounts 1000 0) emptyBlock (TFundsTx (transfer 8 10 5)) of
      (r, st', b', tx') \<Rightarrow>
        r = Ok \<and> FundsTxData b' = [FundsTx_Hash env0 (transfer 8 10 5)] \<and>
        map_option Account.TxCnt (StateCopy b' 7) = Some 1)"
  by (simp add: add_defs example_defs)

section \<open>The hash check of the aggregate fetch\<close>

text \<open>
  C4. The claim: when the aggregate that a peer sends has another hash than the one
  requested, the fetch is retried up to three times and then fails with an error, and the
  wrong aggregate never reaches the block data. The code asks a second time only
  (\<open>cnt < 2\<close> after the increment), then stores whatever arrived, and the send of the
  mismatch error sits behind the \<open>goto\<close>: with hash 5 requested and aggregates of hash 1,
  2 and 3 on offer, the second one lands in \<open>aggTxSlice\<close>, the third is never asked
  for, and the only value on the error channel is the final \<open>nil\<close>.
\<close>

theorem fetchAggTxData_accepts_mismatch:
  "AggTx_Hash env0 (aggOf 1) \<noteq> 5 \<and> AggTx_Hash env0 (aggOf 2) \<noteq> 5 \<and>
   fetchAggTxData env0 Map.empty Map.empty (\<lambda>hs. None) (emptyBlock\<lparr>AggTxData := [5]\<rparr>) False
       (fetchStart [Arrives (aggOf 1), Arrives (aggOf 2), Arrives (aggOf 3)]) =
     (Finished,
      \<lparr>errChan = [None], aggTxSlice = [Some (aggOf 2)], openTx = [aggOf 1, aggOf 2],
       bootstrapTx = [], peer = [Arrives (aggOf 3)]\<rparr>)"
  by (simp add: fetchAggTxData_def fetchOneAggTx_def storeAggTx_def fetchStart_def aggOf_def
        emptyBlock_def env0_def Let_def)

section \<open>The fee of an IoT transaction\<close>

text \<open>
  C5. The claim: an IotTx of a sender that is no root account and has less than the fee
  is refused with an error, leaving balances and txCnt alone; a successful add deducts
  the fee and increments the sender's txCnt. The code sees the shortfall, prints a line
  and goes on: account 7 has no coins and is no root account, the fee is 1, and
  \<open>addTx\<close> returns \<open>nil\<close>, appends the hash and takes the fee off a balance of zero,
  which wraps to \<open>2^64 - 1\<close>.
\<close>

theorem addIoTTx_no_funds_accepted:
  "\<not> IsRootKey (twoAccounts 0 0) (IotTx.From message) \<and>
   Account.Balance (acct 7 0 0) < IotTx.Fee message \<and>
   (case addTx env0 (twoAccounts 0 0) emptyBlock (TIotTx message) of
      (r, st', b', tx') \<Rightarrow>
        r = Ok \<and> IoTTxData b' = [IotTx_Hash env0 message] \<and>
        map_option Account.Balance (StateCopy b' 7) = Some 18446744073709551615 \<and>
        map_option Account.TxCnt (StateCopy b' 7) = Some 1)"
  by (simp add: add_defs example_defs)

section \<open>The staking minimum\<close>

text \<open>
  C6. The claim: a StakeTx of an account that is no root account is refused exactly when
  the balance is strictly below fee plus staking minimum or the staking flag already has
  the requested value, so a balance of exactly fee plus staking minimum is accepted. The
  code refuses when fee plus minimum is greater than or equal to the balance: account 7
  holds 1001 coins, the fee is 1, the minimum 1000, the flag differs, and \<open>addTx\<close>
  returns the error for missing funds.
\<close>

theorem addStakeTx_exact_minimum_rejected:
  "\<not> IsRootKey (twoAccounts 1001 0) (SerializeHashContent env0 (StakeTx.Account stakeRequest)) \<and>
   unat (Account.Balance (acct 7 1001 0)) =
     unat (StakeTx.Fee stakeRequest) + unat (Staking_minimum env0) \<and>
   Account.IsStaking (acct 7 1001 0) \<noteq> StakeTx.IsStaking stakeRequest \<and>
   (case addTx env0 (twoAccounts 1001 0) emptyBlock (TStakeTx stakeRequest) of
      (r, st', b', tx') \<Rightarrow> r = Err NotEnoughFunds \<and> StakeTxData b' = [])"
  by (simp add: add_defs example_defs)

section \<open>A transfer to oneself\<close>

text \<open>
  C9. A FundsTx whose From and To accounts have the same recomputed address hash is never
  verified, whatever the signature check answers: \<open>verifyFundsTx\<close> returns false, and
  so does \<open>verify\<close>.
\<close>

theorem verifyFundsTx_same_account:
  assumes "State st (FundsTx.From tx) = Some accFrom"
    and "State st (FundsTx.To tx) = Some accTo"
    and "SerializeHashContent e (Account.Address accFrom) =
         SerializeHashContent e (Account.Address accTo)"
  shows "fst (verifyFundsTx e st tx) = False \<and> fst (verify e st (TFundsTx tx)) = False"
  using assms by (simp add: verifyFundsTx_def Let_def)

text \<open>A transfer of account 7 to itself, with a signature that the example accepts.\<close>

theorem verifyFundsTx_same_account_witness:
  "State (twoAccounts 1000 0) (FundsTx.From (transfer 7 10 0)) = Some (acct 7 1000 0) \<and>
   State (twoAccounts 1000 0) (FundsTx.To (transfer 7 10 0)) = Some (acct 7 1000 0) \<and>
   ed25519_Verify env0 (GetPubKeyFromAddressED (Account.Address (acct 7 1000 0)))
     (FundsTx_Hash env0 (transfer 7 10 0)) (FundsTx.Sig (transfer 7 10 0)) \<and>
   fst (verifyFundsTx env0 (twoAccounts 1000 0) (transfer 7 10 0)) = False \<and>
   fst (verify env0 (twoAccounts 1000 0) (TFundsTx (transfer 7 10 0))) = False"
  using verifyFundsTx_same_account
    [of "twoAccounts 1000 0" "transfer 7 10 0" "acct 7 1000 0" "acct 7 1000 0" env0]
  by (simp add: example_defs)

section \<open>Verifying a stake transaction writes\<close>

text \<open>
  C10. Verifying a StakeTx is not read-only. When the staking account is absent from the
  global state, \<open>verifyStakeTx\<close> builds a fresh account (no balance, not staking, a
  commitment key of zero bytes), hands it to \<open>WriteAccount\<close> and answers with the
  signature check against the address of that account, whatever the check says. In
  every case the transaction's Account field leaves as the recomputed address hash.
\<close>

theorem verifyStakeTx_not_read_only:
  "(State st (StakeTx.Account tx) = None \<longrightarrow>
      (let newAcc = NewAccount (StakeTx.Account tx) 0 0 False
                      (replicate (COMM_KEY_LENGTH e) 0) None None;
           tx1 = tx\<lparr>StakeTx.Account := SerializeHashContent e (StakeTx.Account tx)\<rparr>
       in verifyStakeTx e st tx =
            (ed25519_Verify e (StakeTx.Account tx) (StakeTx_Hash e tx1) (StakeTx.Sig tx),
             WriteAccount e newAcc st, tx1) \<and>
          Account.Balance newAcc = 0 \<and> \<not> Account.IsStaking newAcc \<and>
          set (Account.CommitmentKey newAcc) \<subseteq> {0})) \<and>
   (\<forall>acc. State st (StakeTx.Account tx) = Some acc \<longrightarrow>
      snd (snd (verifyStakeTx e st tx)) =
        tx\<lparr>StakeTx.Account := SerializeHashContent e (Account.Address acc)\<rparr>)"
  by (auto simp add: verifyStakeTx_def Let_def NewAccount_def GetPubKeyFromAddressED_def)

text \<open>
  With an empty global state the verifier accepts the request of account 7 and leaves the
  new account in the state; with account 7 present the state is read only.
\<close>

theorem verifyStakeTx_not_read_only_witness:
  "State \<lparr>State = Map.empty, RootKeys = []\<rparr> (StakeTx.Account stakeRequest) = None \<and>
   (case verifyStakeTx env0 \<lparr>State = Map.empty, RootKeys = []\<rparr> stakeRequest of
      (v, st', tx') \<Rightarrow>
        v \<and> State st' 7 = Some (NewAccount 7 0 0 False [0, 0, 0, 0] None None) \<and>
        tx' = stakeRequest) \<and>
   snd (snd (verifyStakeTx env0 (twoAccounts 5 0) stakeRequest)) = stakeRequest"
  using verifyStakeTx_not_read_only [of "\<lparr>State = Map.empty, RootKeys = []\<rparr>" stakeRequest env0]
    verifyStakeTx_not_read_only [of "twoAccounts 5 0" stakeRequest env0]
  by (simp add: example_defs Let_def eval_nat_numeral)

section \<open>Encoding, then decoding\<close>

subsection \<open>The example wire format decodes what it encodes\<close>

lemma length_be_bytes [simp]: "length (be_bytes k n) = k"
  by (induction k arbitrary: n) auto











lemma FundsTx_Encode_ignores_Aggregated:
  "FundsTx_Encode g (tx\<lparr>FundsTx.Aggregated := a\<rparr>) = FundsTx_Encode g tx"
  by (simp add: FundsTx_Encode_def FundsTx_encodeData_def)

lemma FundsTx_roundtrip_not_for_both:
  "\<not> (FundsTx_Decode g (FundsTx_Encode g (tx\<lparr>FundsTx.Aggregated := True\<rparr>)) =
        tx\<lparr>FundsTx.Aggregated := True\<rparr> \<and>
      FundsTx_Decode g (FundsTx_Encode g (tx\<lparr>FundsTx.Aggregated := False\<rparr>)) =
        tx\<lparr>FundsTx.Aggregated := False\<rparr>)"
proof
  assume a: "FundsTx_Decode g (FundsTx_Encode g (tx\<lparr>FundsTx.Aggregated := True\<rparr>)) =
        tx\<lparr>FundsTx.Aggregated := True\<rparr> \<and>
      FundsTx_Decode g (FundsTx_Encode g (tx\<lparr>FundsTx.Aggregated := False\<rparr>)) =
        tx\<lparr>FundsTx.Aggregated := False\<rparr>"
  then have "tx\<lparr>FundsTx.Aggregated := True\<rparr> = tx\<lparr>FundsTx.Aggregated := False\<rparr>"
    by (metis FundsTx_Encode_ignores_Aggregated)
  then have "FundsTx.Aggregated (tx\<lparr>FundsTx.Aggregated := True\<rparr>) =
             FundsTx.Aggregated (tx\<lparr>FundsTx.Aggregated := False\<rparr>)" by (rule arg_cong)
  then show False by simp
qed

subsection \<open>The round trip\<close>




section \<open>The sender and receiver lists of an aggregate\<close>

subsection \<open>What the first loop computes\<close>







subsection \<open>Which list is cut\<close>




section \<open>The balance of the receiver\<close>

subsection \<open>The copy-on-read step and the 64-bit sum\<close>

lemma copyToStateCopy_touched:
  assumes "touched e st b k = Some a"
  shows "\<exists>b1. copyToStateCopy e st b k = Some b1 \<and> StateCopy b1 k = Some a \<and>
           (\<forall>k'. touched e st b1 k' = touched e st b k') \<and>
           (\<forall>k' a'. StateCopy b k' = Some a' \<longrightarrow> StateCopy b1 k' = Some a') \<and>
           (\<forall>k' a'. StateCopy b1 k' = Some a' \<longrightarrow> touched e st b k' = Some a')"
  using assms
  by (auto simp add: copyToStateCopy_def touched_def split: option.splits if_splits)

lemma word_sum_exceeds:
  fixes a b m :: u64
  assumes "unat a + unat b < 2 ^ 64" and "unat m < unat a + unat b"
  shows "a + b > m"
proof -
  have "unat (a + b) = unat a + unat b"
    using assms(1) by (simp add: unat_add_lem [THEN iffD1])
  then show ?thesis using assms(2) by (simp add: word_less_nat_alt)
qed

lemma addFundsTx_overflow:
  assumes s: "touched e st b (FundsTx.From tx) = Some accS"
    and r: "touched e st b (FundsTx.To tx) = Some accR"
    and f: "IsRootKey st (FundsTx.From tx) \<or>
            \<not> FundsTx.Amount tx + FundsTx.Fee tx > Account.Balance accS"
    and o: "unat (MAX_MONEY e) < unat (Account.Balance accR) + unat (FundsTx.Amount tx)"
    and w: "unat (Account.Balance accR) + unat (FundsTx.Amount tx) < 2 ^ 64"
  shows "fst (addFundsTx e st b tx) = Err Overflow \<and>
         (\<forall>k a. StateCopy (snd (addFundsTx e st b tx)) k = Some a \<longrightarrow> touched e st b k = Some a)"
proof -
  from copyToStateCopy_touched [OF s] obtain b1 where
    b1: "copyToStateCopy e st b (FundsTx.From tx) = Some b1"
    and b1s: "StateCopy b1 (FundsTx.From tx) = Some accS"
    and b1t: "\<forall>k'. touched e st b1 k' = touched e st b k'"
    and b1k: "\<forall>k' a'. StateCopy b1 k' = Some a' \<longrightarrow> touched e st b k' = Some a'"
    by blast
  have "touched e st b1 (FundsTx.To tx) = Some accR" using r b1t by simp
  from copyToStateCopy_touched [OF this] obtain b2 where
    b2: "copyToStateCopy e st b1 (FundsTx.To tx) = Some b2"
    and b2r: "StateCopy b2 (FundsTx.To tx) = Some accR"
    and b2p: "\<forall>k' a'. StateCopy b1 k' = Some a' \<longrightarrow> StateCopy b2 k' = Some a'"
    and b2k: "\<forall>k' a'. StateCopy b2 k' = Some a' \<longrightarrow> touched e st b1 k' = Some a'"
    by blast
  have b2s: "StateCopy b2 (FundsTx.From tx) = Some accS" using b1s b2p by simp
  have ov: "Account.Balance accR + FundsTx.Amount tx > MAX_MONEY e"
    using w o by (rule word_sum_exceeds)
  have res: "addFundsTx e st b tx = (Err Overflow, b2)"
    using f ov by (auto simp add: addFundsTx_def b1 b2 b2s b2r)
  show ?thesis using res b2k b1t by simp
qed

lemma addFundsTx_Ok_receiver:
  assumes "addFundsTx e st b tx = (Ok, b')" and "FundsTx.From tx \<noteq> FundsTx.To tx"
  shows "\<exists>acc. StateCopy b' (FundsTx.To tx) = Some acc \<and> Account.Balance acc \<le> MAX_MONEY e"
  using assms
  by (auto simp add: addFundsTx_def Let_def not_less split: option.splits if_splits)

lemma verifyFundsTx_True:
  "verifyFundsTx e st tx = (True, tx1) \<Longrightarrow>
     FundsTx.From tx1 \<noteq> FundsTx.To tx1 \<and> FundsTx.Amount tx1 \<noteq> 0 \<and>
     FundsTx.Amount tx1 \<le> MAX_MONEY e"
  by (auto simp add: verifyFundsTx_def Let_def not_less split: option.splits if_splits)

lemma no_wrap_within_MAX_MONEY:
  fixes bal amt m :: u64
  assumes "bal \<le> m" and "amt \<le> m" and "unat m < 2 ^ 63"
  shows "unat bal + unat amt < 2 ^ 64"
proof -
  have "unat bal \<le> unat m" and "unat amt \<le> unat m"
    using assms(1,2) by (simp_all add: word_le_nat_alt)
  then show ?thesis using assms(3) by simp
qed

subsection \<open>The overflow test wraps\<close>

text \<open>
  C8. The claim: whenever the receiver's balance plus the amount exceeds MAX_MONEY in
  exact arithmetic, also when the 64-bit addition wraps, the add fails with the overflow
  error and no balance changes, so that a receiver never ends above MAX_MONEY. The code
  adds in 64 bits and compares the wrapped sum, under the comment "Prevent balance
  overflow in receiver account": a receiver with \<open>2^64 - 1\<close> coins and an amount of 1
  give the sum 0, and \<open>addTx\<close> returns \<open>nil\<close>, appends the hash and leaves the
  receiver with no coins.
\<close>

theorem addFundsTx_overflow_check_wraps:
  "unat (MAX_MONEY env0) <
     unat (Account.Balance (acct 8 18446744073709551615 0)) + unat (FundsTx.Amount (transfer 8 1 0)) \<and>
   (case addTx env0 (twoAccounts 1000 18446744073709551615) emptyBlock (TFundsTx (transfer 8 1 0)) of
      (r, st', b', tx') \<Rightarrow>
        r = Ok \<and> FundsTxData b' = [FundsTx_Hash env0 (transfer 8 1 0)] \<and>
        map_option Account.Balance (StateCopy b' 8) = Some 0)"
  by (simp add: add_defs example_defs)

text \<open>
  Such a balance needs no help from outside. Both accounts start within MAX_MONEY, with 1
  coin and none. A transfer of 5 coins from account 7 with a fee of \<open>2^64 - 4\<close> passes
  the funds test, because amount plus fee wraps to 1, and leaves account 7 with
  \<open>2^64 - 4\<close> coins in the state copy. A transfer of 4 coins back from account 8 then
  passes the overflow test, because the sum wraps to 0, and leaves account 7 with none.
\<close>

lemma addFundsTx_overflow_reachable:
  "Account.Balance (acct 7 1 0) \<le> MAX_MONEY env0 \<and> Account.Balance (acct 8 0 0) \<le> MAX_MONEY env0 \<and>
   (case addTx env0 (twoAccounts 1 0) emptyBlock
           (TFundsTx ((transfer 8 5 0)\<lparr>FundsTx.Fee := 18446744073709551612\<rparr>)) of
      (r1, st1, b1, tx1) \<Rightarrow>
        r1 = Ok \<and>
        map_option Account.Balance (StateCopy b1 7) = Some 18446744073709551612 \<and>
        map_option Account.Balance (StateCopy b1 8) = Some 5 \<and>
        (case addTx env0 st1 b1 (TFundsTx ((transfer 7 4 0)\<lparr>FundsTx.From := 8\<rparr>)) of
           (r2, st2, b2, tx2) \<Rightarrow>
             r2 = Ok \<and> length (FundsTxData b2) = 2 \<and>
             map_option Account.Balance (StateCopy b2 7) = Some 0 \<and>
             map_option Account.Balance (StateCopy b2 8) = Some 1))"
  by (simp add: add_defs example_defs)

subsection \<open>What the overflow test does reject\<close>

text \<open>
  For a FundsTx that passes the fee floor and the verifier, with a sender that passes the
  funds test: where the exact sum of the receiver's balance and the amount exceeds
  MAX_MONEY and still fits in 64 bits, \<open>addTx\<close> returns the overflow error and every
  account of the state copy is the account the add started from. And the balance that a
  successful \<open>addTx\<close> of a FundsTx writes for the receiver is at most MAX_MONEY, being
  the wrapped sum that passed the test.
\<close>

lemma addTx_FundsTx_overflow_test:
  "(\<forall>tx1 accS accR.
      Fee_minimum e \<le> FundsTx.Fee tx \<and> verifyFundsTx e st tx = (True, tx1) \<and>
      touched e st b (FundsTx.From tx1) = Some accS \<and>
      touched e st b (FundsTx.To tx1) = Some accR \<and>
      (IsRootKey st (FundsTx.From tx1) \<or>
       \<not> FundsTx.Amount tx1 + FundsTx.Fee tx1 > Account.Balance accS) \<and>
      unat (MAX_MONEY e) < unat (Account.Balance accR) + unat (FundsTx.Amount tx1) \<and>
      unat (Account.Balance accR) + unat (FundsTx.Amount tx1) < 2 ^ 64 \<longrightarrow>
      (case addTx e st b (TFundsTx tx) of
         (r, st', b', tx') \<Rightarrow>
           r = Err Overflow \<and>
           (\<forall>k a. StateCopy b' k = Some a \<longrightarrow> touched e st b k = Some a))) \<and>
   (\<forall>st' b' tx'.
      addTx e st b (TFundsTx tx) = (Ok, st', b', tx') \<longrightarrow>
      (\<exists>tx1 acc. tx' = TFundsTx tx1 \<and> StateCopy b' (FundsTx.To tx1) = Some acc \<and>
                 Account.Balance acc \<le> MAX_MONEY e))"
proof (intro conjI allI impI)
  fix tx1 accS accR
  assume a: "Fee_minimum e \<le> FundsTx.Fee tx \<and> verifyFundsTx e st tx = (True, tx1) \<and>
      touched e st b (FundsTx.From tx1) = Some accS \<and>
      touched e st b (FundsTx.To tx1) = Some accR \<and>
      (IsRootKey st (FundsTx.From tx1) \<or>
       \<not> FundsTx.Amount tx1 + FundsTx.Fee tx1 > Account.Balance accS) \<and>
      unat (MAX_MONEY e) < unat (Account.Balance accR) + unat (FundsTx.Amount tx1) \<and>
      unat (Account.Balance accR) + unat (FundsTx.Amount tx1) < 2 ^ 64"
  then have "fst (addFundsTx e st b tx1) = Err Overflow \<and>
         (\<forall>k a. StateCopy (snd (addFundsTx e st b tx1)) k = Some a \<longrightarrow> touched e st b k = Some a)"
    by (intro addFundsTx_overflow) auto
  then show "case addTx e st b (TFundsTx tx) of
         (r, st', b', tx') \<Rightarrow>
           r = Err Overflow \<and>
           (\<forall>k a. StateCopy b' k = Some a \<longrightarrow> touched e st b k = Some a)"
    using a by (auto simp add: addTx_def not_less [symmetric] split: prod.splits)
next
  fix st' b' tx'
  assume a: "addTx e st b (TFundsTx tx) = (Ok, st', b', tx')"
  then obtain tx1 where v: "verifyFundsTx e st tx = (True, tx1)" and t: "tx' = TFundsTx tx1"
    and f: "addFundsTx e st b tx1 = (Ok, b')"
    by (auto simp add: addTx_def split: if_splits prod.splits)
  from verifyFundsTx_True [OF v] have "FundsTx.From tx1 \<noteq> FundsTx.To tx1" by simp
  from addFundsTx_Ok_receiver [OF f this] t
  show "\<exists>tx1 acc. tx' = TFundsTx tx1 \<and> StateCopy b' (FundsTx.To tx1) = Some acc \<and>
                 Account.Balance acc \<le> MAX_MONEY e" by blast
qed

section \<open>What a failed add leaves behind\<close>

subsection \<open>Each inclusion rule\<close>

lemma onlyCopies_refl: "onlyCopies st b b"
  by (simp add: onlyCopies_def)

lemma onlyCopies_trans:
  assumes "onlyCopies st b b1" and "onlyCopies st b1 b2"
  shows "onlyCopies st b b2"
  unfolding onlyCopies_def
proof (intro conjI allI)
  fix k
  have 1: "StateCopy b1 k = StateCopy b k \<or> (StateCopy b k = None \<and> StateCopy b1 k = State st k)"
    using assms(1) by (simp add: onlyCopies_def)
  have 2: "StateCopy b2 k = StateCopy b1 k \<or> (StateCopy b1 k = None \<and> StateCopy b2 k = State st k)"
    using assms(2) by (simp add: onlyCopies_def)
  from 1 2 show "StateCopy b2 k = StateCopy b k \<or> (StateCopy b k = None \<and> StateCopy b2 k = State st k)"
    by auto
qed (use assms in \<open>simp_all add: onlyCopies_def\<close>)

lemma copyToStateCopy_onlyCopies:
  "copyToStateCopy e st b k = Some b1 \<Longrightarrow> onlyCopies st b b1"
  by (auto simp add: copyToStateCopy_def onlyCopies_def split: option.splits if_splits)

lemma addAccTx_Err: "addAccTx e st b tx = (Err err, b') \<Longrightarrow> onlyCopies st b b'"
  by (auto simp add: addAccTx_def Let_def onlyCopies_refl split: if_splits)

lemma addConfigTx_Err: "addConfigTx e b tx = (Err err, b') \<Longrightarrow> onlyCopies st b b'"
  by (simp add: addConfigTx_def)

lemma addIoTTx_Err: "addIoTTx e st b tx = (Err err, b') \<Longrightarrow> onlyCopies st b b'"
  by (auto simp add: addIoTTx_def onlyCopies_refl split: option.splits
        dest: copyToStateCopy_onlyCopies)

lemma addStakeTx_Err: "addStakeTx e st b tx = (Err err, b') \<Longrightarrow> onlyCopies st b b'"
  by (auto simp add: addStakeTx_def onlyCopies_refl split: option.splits if_splits
        dest: copyToStateCopy_onlyCopies)

lemma addFundsTx_Err:
  assumes "addFundsTx e st b tx = (Err err, b')"
  shows "onlyCopies st b b'"
proof (cases "copyToStateCopy e st b (FundsTx.From tx)")
  case None
  then show ?thesis using assms by (simp add: addFundsTx_def onlyCopies_refl)
next
  case (Some b1)
  note b1 = this
  show ?thesis
  proof (cases "copyToStateCopy e st b1 (FundsTx.To tx)")
    case None
    then show ?thesis
      using assms b1 by (auto simp add: addFundsTx_def dest: copyToStateCopy_onlyCopies)
  next
    case (Some b2)
    have "onlyCopies st b b2"
      using copyToStateCopy_onlyCopies [OF b1] copyToStateCopy_onlyCopies [OF Some]
      by (rule onlyCopies_trans)
    moreover have "b' = b2"
      using assms b1 Some
      by (auto simp add: addFundsTx_def Let_def split: option.splits if_splits)
    ultimately show ?thesis by simp
  qed
qed

subsection \<open>The block after an error\<close>

text \<open>
  C2, as claimed: when \<open>addTx\<close> returns an error the block is as it was, and in
  particular the state copy has gained no entry. The inclusion rules copy the accounts
  they need into the state copy before they test anything: account 7 holds 5 coins, the
  transfer of 10 coins to account 8 fails for missing funds, and the state copy of the
  block, empty before, now holds accounts 7 and 8.
\<close>

theorem addTx_error_grows_StateCopy_counterexample:
  "(case addTx env0 (twoAccounts 5 0) emptyBlock (TFundsTx (transfer 8 10 0)) of
      (r, st', b', tx') \<Rightarrow>
        r = Err NotEnoughFunds \<and> StateCopy emptyBlock 7 = None \<and>
        StateCopy b' 7 = Some (acct 7 5 0) \<and> StateCopy b' 8 = Some (acct 8 0 0))"
  by (simp add: add_defs example_defs)

text \<open>
  C2, amended. When \<open>addTx\<close> returns an error, none of the six hash sequences has
  changed and no entry of the state copy has changed: an account that was in the state
  copy is there as it was, balance and txCnt included, and an entry that is new is the
  account of the global state under that address, unmodified.
\<close>

theorem addTx_error_leaves_copies_only:
  assumes "addTx e st b tx = (Err err, st', b', tx')"
  shows "onlyCopies st' b b'"
proof (cases "TxFee tx < Fee_minimum e")
  case True
  then show ?thesis using assms by (auto simp add: addTx_def onlyCopies_refl)
next
  case False
  obtain v st1 tx1 where v: "verify e st tx = (v, st1, tx1)" by (cases "verify e st tx") auto
  show ?thesis
  proof (cases v)
    case False
    then show ?thesis
      using assms v \<open>\<not> TxFee tx < Fee_minimum e\<close> by (auto simp add: addTx_def onlyCopies_refl)
  next
    case True
    then show ?thesis
      using assms v \<open>\<not> TxFee tx < Fee_minimum e\<close>
      by (cases tx1)
         (auto simp add: addTx_def onlyCopies_refl split: prod.splits
            dest: addAccTx_Err addFundsTx_Err addConfigTx_Err addStakeTx_Err addIoTTx_Err)
  qed
qed

text \<open>The failed transfer above: the two copies are the accounts of the global state.\<close>

theorem addTx_error_leaves_copies_only_witness:
  "addTx env0 (twoAccounts 5 0) emptyBlock (TFundsTx (transfer 8 10 0)) =
     (Err NotEnoughFunds, twoAccounts 5 0,
      emptyBlock\<lparr>StateCopy := [7 \<mapsto> acct 7 5 0, 8 \<mapsto> acct 8 0 0]\<rparr>, TFundsTx (transfer 8 10 0)) \<and>
   onlyCopies (twoAccounts 5 0) emptyBlock
     (emptyBlock\<lparr>StateCopy := [7 \<mapsto> acct 7 5 0, 8 \<mapsto> acct 8 0 0]\<rparr>)"
proof -
  have a: "addTx env0 (twoAccounts 5 0) emptyBlock (TFundsTx (transfer 8 10 0)) =
     (Err NotEnoughFunds, twoAccounts 5 0,
      emptyBlock\<lparr>StateCopy := [7 \<mapsto> acct 7 5 0, 8 \<mapsto> acct 8 0 0]\<rparr>, TFundsTx (transfer 8 10 0))"
    by (simp add: add_defs example_defs)
  from addTx_error_leaves_copies_only [OF a] a show ?thesis by simp
qed

section \<open>Further facts about the inclusion rules\<close>

text \<open>
  What does hold of the three rules whose tests are switched off or off by one. A
  successful \<open>addFundsTx\<close> leaves the sender's txCnt one higher than it found it. A
  successful \<open>addIoTTx\<close> does the same and takes the fee off the balance, in 64 bits,
  and no run of \<open>addIoTTx\<close> ends in the error for missing funds. For an account that is
  no root account, \<open>addStakeTx\<close> refuses exactly when the balance is at most fee plus
  staking minimum (the sum taken in 64 bits) or the flag already has the requested value.
\<close>

lemma addFundsTx_Ok_increments_TxCnt:
  assumes "addFundsTx e st b tx = (Ok, b')"
  shows "\<exists>a a'. touched e st b (FundsTx.From tx) = Some a \<and>
           StateCopy b' (FundsTx.From tx) = Some a' \<and> Account.TxCnt a' = Account.TxCnt a + 1"
  using assms
  by (auto simp add: addFundsTx_def copyToStateCopy_def touched_def Let_def
        split: option.splits if_splits)

lemma addIoTTx_Ok_deducts_fee:
  assumes "addIoTTx e st b tx = (Ok, b')"
  shows "\<exists>a a'. touched e st b (IotTx.From tx) = Some a \<and>
           StateCopy b' (IotTx.From tx) = Some a' \<and>
           Account.TxCnt a' = Account.TxCnt a + 1 \<and>
           Account.Balance a' = Account.Balance a - IotTx.Fee tx"
  using assms
  by (auto simp add: addIoTTx_def copyToStateCopy_def touched_def Let_def
        split: option.splits if_splits)

lemma addIoTTx_never_NotEnoughFunds: "fst (addIoTTx e st b tx) \<noteq> Err NotEnoughFunds"
  by (auto simp add: addIoTTx_def split: option.splits)

lemma addStakeTx_rejects:
  assumes "touched e st b (StakeTx.Account tx) = Some acc"
    and "\<not> IsRootKey st (SerializeHashContent e (StakeTx.Account tx))"
  shows "fst (addStakeTx e st b tx) \<noteq> Ok \<longleftrightarrow>
           Account.Balance acc \<le> StakeTx.Fee tx + Staking_minimum e \<or>
           Account.IsStaking acc = StakeTx.IsStaking tx"
  using assms
  by (auto simp add: addStakeTx_def copyToStateCopy_def touched_def
        split: option.splits if_splits)

section \<open>Further facts about the aggregate fetch\<close>

text \<open>
  Whatever the stores hold and the peer sends, the request block asks the peer at most
  twice for one hash, and no run of \<open>fetchAggTxData\<close> puts the mismatch error on the
  error channel, unless the nested fetch of the members reports one.
\<close>

lemma requestAggTx_no_HashMismatch:
  assumes "\<forall>hs. nested hs \<noteq> Some HashMismatch" and "Some HashMismatch \<notin> set (errChan s)"
  shows "Some HashMismatch \<notin> set (errChan (snd (requestAggTx e nested i h cnt hs evs s)))"
  using assms
proof (induction e nested i h cnt hs evs s rule: requestAggTx.induct)
  case (4 e nested initialSetup txHash cnt hashes aggTx evs s)
  let ?s1 = "s\<lparr>openTx := openTx s @ [aggTx],
                 bootstrapTx := (if initialSetup then bootstrapTx s @ [aggTx] else bootstrapTx s),
                 errChan := (case nested (hashes @ AggTx.AggregatedTxSlice aggTx) of
                               None \<Rightarrow> errChan s
                             | Some err \<Rightarrow> errChan s @ [Some err]),
                 peer := evs\<rparr>"
  have s1: "Some HashMismatch \<notin> set (errChan ?s1)"
    using "4.prems" by (auto split: option.splits)
  show ?case
  proof (cases "AggTx_Hash e aggTx \<noteq> txHash \<and> cnt + 1 < 2")
    case True
    then show ?thesis using "4.IH" [OF refl refl refl True "4.prems"(1) s1] by (simp add: Let_def)
  next
    case False
    then show ?thesis using s1 by (auto simp add: Let_def)
  qed
qed simp_all

lemma requestAggTx_two_requests:
  "0 \<le> cnt \<Longrightarrow>
   length evs \<le> length (peer (snd (requestAggTx e nested i h cnt hs evs s))) +
                  (if cnt = 0 then 2 else 1)"
proof (induction e nested i h cnt hs evs s rule: requestAggTx.induct)
  case (4 e nested initialSetup txHash cnt hashes aggTx evs s)
  show ?case
  proof (cases "AggTx_Hash e aggTx \<noteq> txHash \<and> cnt + 1 < 2")
    case True
    then have c: "cnt = 0" using "4.prems" by simp
    have "0 \<le> cnt + 1" using "4.prems" by simp
    from "4.IH" [OF refl refl refl True this] c True show ?thesis
      by (simp add: Let_def)
  next
    case False
    then show ?thesis by (auto simp add: Let_def)
  qed
qed simp_all


lemma storeAggTx_errChan: "errChan (snd (storeAggTx cnt a s)) = errChan s"
  by (simp add: storeAggTx_def)

lemma fetchOneAggTx_no_HashMismatch:
  assumes n: "\<forall>hs. nested hs \<noteq> Some HashMismatch" and s: "Some HashMismatch \<notin> set (errChan s)"
  shows "Some HashMismatch \<notin> set (errChan (snd (fetchOneAggTx e rc ro nested i cnt h s)))"
proof -
  have r: "Some HashMismatch \<notin> set (errChan (snd (requestAggTx e nested i h 0 [] (peer s) s)))"
    using n s by (rule requestAggTx_no_HashMismatch)
  show ?thesis
    using n s r
    by (auto simp add: fetchOneAggTx_def storeAggTx_errChan
          split: option.splits Transaction.splits prod.splits)
qed

lemma fetchAggTxLoop_no_HashMismatch:
  assumes "\<forall>hs. nested hs \<noteq> Some HashMismatch" and "Some HashMismatch \<notin> set (errChan s)"
  shows "Some HashMismatch \<notin> set (errChan (snd (fetchAggTxLoop e rc ro nested i cnt hashes s)))"
  using assms
proof (induction hashes arbitrary: cnt s)
  case Nil
  then show ?case by simp
next
  case (Cons h hashes)
  obtain ex s1 where o: "fetchOneAggTx e rc ro nested i cnt h s = (ex, s1)"
    by (cases "fetchOneAggTx e rc ro nested i cnt h s") auto
  have s1: "Some HashMismatch \<notin> set (errChan s1)"
    using fetchOneAggTx_no_HashMismatch [OF Cons.prems, of e rc ro i cnt h] o by simp
  show ?case
  proof (cases ex)
    case None
    then show ?thesis using o Cons.IH [OF Cons.prems(1) s1] by simp
  next
    case (Some x)
    then show ?thesis using o s1 by simp
  qed
qed

lemma fetchAggTxData_never_reports_mismatch:
  assumes "\<forall>hs. nested hs \<noteq> Some HashMismatch" and "Some HashMismatch \<notin> set (errChan s)"
  shows "Some HashMismatch \<notin> set (errChan (snd (fetchAggTxData e rc ro nested block i s)))"
  unfolding fetchAggTxData_def using assms by (rule fetchAggTxLoop_no_HashMismatch)

end
